theory Spec2Isabelle
  imports Main "HOL-Library.Word" "HOL-Library.List_Lexorder" "HOL-Library.AList"
begin

section \<open>LWW-Register CRDT (package crdt, lwwreg.go)\<close>

subsection \<open>Datastore and keys\<close>

type_synonym byte = "8 word"
type_synonym bytes = "byte list"

text \<open>
  \<open>core.DataStoreKey\<close>: the register key. The flag methods replace the instance type;
  \<open>ToPrimaryDataStoreKey\<close> keeps the collection and the document key only.
\<close>

datatype instance_type = NoFlag | ValueFlag | PriorityFlag | DeletedFlag

record DataStoreKey =
  CollectionID :: string
  InstanceType :: instance_type
  DocKey :: string
  FieldId :: string

datatype ds_key = DataKey DataStoreKey | PrimaryKey string string

definition WithValueFlag :: "DataStoreKey \<Rightarrow> DataStoreKey" where
  "WithValueFlag k = k\<lparr>InstanceType := ValueFlag\<rparr>"

definition WithPriorityFlag :: "DataStoreKey \<Rightarrow> DataStoreKey" where
  "WithPriorityFlag k = k\<lparr>InstanceType := PriorityFlag\<rparr>"

definition WithDeletedFlag :: "DataStoreKey \<Rightarrow> DataStoreKey" where
  "WithDeletedFlag k = k\<lparr>InstanceType := DeletedFlag\<rparr>"

definition ToPrimaryDataStoreKey :: "DataStoreKey \<Rightarrow> ds_key" where
  "ToPrimaryDataStoreKey k = PrimaryKey (CollectionID k) (DocKey k)"

text \<open>
  The datastore behind \<open>reg.store\<close> (\<open>datastore.DSReaderWriter\<close>): \<open>Get\<close> answers
  \<open>ErrNotFound\<close> for a key that holds nothing and may fail for any other reason;
  \<open>Put\<close> may fail and then writes nothing. The two fault predicates stand for those
  other failures. The priority of a register is kept under its priority-flag key.
\<close>

datatype ds_error = ErrNotFound | ErrDatastore

record store =
  kv :: "ds_key \<rightharpoonup> bytes"
  prio :: "ds_key \<rightharpoonup> 64 word"
  get_fails :: "ds_key \<Rightarrow> bool"
  put_fails :: "ds_key \<Rightarrow> bool"

definition ds_Get :: "store \<Rightarrow> ds_key \<Rightarrow> ds_error + bytes" where
  "ds_Get st k =
     (if get_fails st k then Inl ErrDatastore
      else case kv st k of None \<Rightarrow> Inl ErrNotFound | Some v \<Rightarrow> Inr v)"

definition ds_Put :: "store \<Rightarrow> ds_key \<Rightarrow> bytes \<Rightarrow> ds_error + store" where
  "ds_Put st k v =
     (if put_fails st k then Inl ErrDatastore
      else Inr (st\<lparr>kv := (kv st)(k \<mapsto> v)\<rparr>))"

text \<open>
  Modelled from the spec: \<open>baseCRDT.getPriority\<close> and \<open>baseCRDT.setPriority\<close> are
  not among the sources. \<open>getPriority\<close> reads the stored priority for the key, a key
  with no recorded priority having priority 0; \<open>setPriority\<close> records the new
  priority.
\<close>

definition getPriority :: "store \<Rightarrow> DataStoreKey \<Rightarrow> ds_error + 64 word" where
  "getPriority st key =
     (let pKey = DataKey (WithPriorityFlag key) in
      if get_fails st pKey then Inl ErrDatastore
      else case prio st pKey of None \<Rightarrow> Inr 0 | Some p \<Rightarrow> Inr p)"

definition setPriority :: "store \<Rightarrow> DataStoreKey \<Rightarrow> 64 word \<Rightarrow> ds_error + store" where
  "setPriority st key p =
     (let pKey = DataKey (WithPriorityFlag key) in
      if put_fails st pKey then Inl ErrDatastore
      else Inr (st\<lparr>prio := (prio st)(pKey \<mapsto> p)\<rparr>))"

subsection \<open>Deltas and the register\<close>

record LWWRegDelta =
  SchemaVersionID :: string
  Priority :: "64 word"
  Data :: bytes
  DeltaDocKey :: bytes

text \<open>\<open>core.Delta\<close> is an interface; the register accepts only its own delta type.\<close>

datatype delta = LWWDelta LWWRegDelta | OtherDelta

text \<open>
  The two byte constants the register uses are declared outside the sources
  (\<open>client.LWW_REGISTER\<close>, \<open>base.DeletedObjectMarker\<close>); they are parameters.
\<close>

record crdt_consts =
  LWW_REGISTER :: byte
  DeletedObjectMarker :: byte

record LWWRegister =
  key :: DataStoreKey
  schemaVersionKey :: string

datatype crdt_error =
    ErrMismatchedMergeType
  | ErrFailedToGetPriority ds_error
  | ErrFailedToStoreValue ds_error
  | ErrStore ds_error

text \<open>\<open>bytes.Compare\<close>: -1, 0 or 1, bytes compared as unsigned, a proper prefix first.\<close>

fun bytes_Compare :: "bytes \<Rightarrow> bytes \<Rightarrow> int" where
  "bytes_Compare [] [] = 0"
| "bytes_Compare [] (y # ys) = - 1"
| "bytes_Compare (x # xs) [] = 1"
| "bytes_Compare (x # xs) (y # ys) =
     (if x < y then - 1 else if y < x then 1 else bytes_Compare xs ys)"

text \<open>\<open>LWWRegister.Value\<close>: \<open>buf[1:]\<close> panics on an empty buffer.\<close>

datatype value_result = ValueErr ds_error | ValuePanic | ValueOk bytes

definition Value :: "LWWRegister \<Rightarrow> store \<Rightarrow> value_result" where
  "Value reg st =
     (case ds_Get st (DataKey (WithValueFlag (key reg))) of
        Inl err \<Rightarrow> ValueErr err
      | Inr buf \<Rightarrow> (case buf of [] \<Rightarrow> ValuePanic | _ # rest \<Rightarrow> ValueOk rest))"

definition Set_delta :: "LWWRegister \<Rightarrow> bytes \<Rightarrow> LWWRegDelta" where
  "Set_delta reg v =
     \<lparr>SchemaVersionID = schemaVersionKey reg, Priority = 0, Data = v,
      DeltaDocKey = map (\<lambda>ch. of_nat (of_char ch)) (DocKey (key reg))\<rparr>"

text \<open>
  \<open>LWWRegister.setValue\<close>. The result is the store as the call leaves it and the
  error it returns, if any: a failure after the value was written leaves the value written.
\<close>

definition setValue ::
  "crdt_consts \<Rightarrow> LWWRegister \<Rightarrow> bytes \<Rightarrow> 64 word \<Rightarrow> store \<Rightarrow> store \<times> crdt_error option" where
  "setValue c reg val priority st =
     (case getPriority st (key reg) of
        Inl err \<Rightarrow> (st, Some (ErrFailedToGetPriority err))
      | Inr curPrio \<Rightarrow>
          (let key0 = WithValueFlag (key reg);
               got = ds_Get st (ToPrimaryDataStoreKey (key reg))
           in if got = Inl ErrDatastore then (st, Some (ErrStore ErrDatastore))
              else
                (let marker = (case got of Inl _ \<Rightarrow> [] | Inr m \<Rightarrow> m);
                     k = (if marker = [DeletedObjectMarker c] then WithDeletedFlag key0 else key0);
                     curValue0 = (case ds_Get st (DataKey k) of Inl _ \<Rightarrow> [] | Inr v \<Rightarrow> v);
                     curValue = (if length curValue0 > 0 then tl curValue0 else curValue0)
                 in if priority < curPrio then (st, None)
                    else if priority = curPrio \<and> bytes_Compare curValue val \<ge> 0 then (st, None)
                    else
                      (case ds_Put st (DataKey k) (LWW_REGISTER c # val) of
                         Inl err \<Rightarrow> (st, Some (ErrFailedToStoreValue err))
                       | Inr st1 \<Rightarrow>
                           (case setPriority st1 (key reg) priority of
                              Inl err \<Rightarrow> (st1, Some (ErrStore err))
                            | Inr st2 \<Rightarrow> (st2, None))))))"

definition Merge ::
  "crdt_consts \<Rightarrow> LWWRegister \<Rightarrow> delta \<Rightarrow> store \<Rightarrow> store \<times> crdt_error option" where
  "Merge c reg dl st =
     (case dl of
        OtherDelta \<Rightarrow> (st, Some ErrMismatchedMergeType)
      | LWWDelta d \<Rightarrow> setValue c reg (Data d) (Priority d) st)"

section \<open>Peer and server (package net, peer.go and server.go)\<close>

subsection \<open>Identifiers, errors and the outside world\<close>

type_synonym peer_id = string
type_synonym cid = string
type_synonym topic = string

text \<open>
  Errors of the package. \<open>Wrap msg cause\<close> is \<open>errors.Wrap(msg, cause)\<close>; the other
  constructors are the errors the package creates itself and the failures of the calls it
  makes into the database, libp2p and the pubsub backend.
\<close>

datatype net_error =
    ErrNewTxn
  | ErrStoreCall
  | ErrCollectionNotFound string
  | ErrNoP2PComponent
  | ErrPeerDecode
  | ErrAddrInfo
  | ErrSelfTarget
  | ErrReplicatorExists string peer_id
  | ErrPersist
  | ErrDocKeys
  | ErrCommit
  | ErrTxnConflict
  | ErrTopicClose
  | ErrNewTopic
  | ErrMarshal
  | ErrPublish
  | ErrInvalidDocKey
  | ErrStreamPeer
  | ErrBlockstore
  | ErrBlockDecode
  | ErrBlockPut
  | ErrDeltaDecode
  | ErrMerge
  | ErrNoProgress
  | ErrMaxTxnRetries "net_error option"
  | Wrap string net_error

datatype log_entry = LogInfo string | LogError string net_error

record Collection =
  Name :: string
  SchemaID :: string
  DocKeys :: "string list"

text \<open>A multiaddress, as far as the peer looks at it: its \<open>/p2p\<close> component, and what
  \<open>peer.AddrInfoFromP2pAddr\<close> makes of it.\<close>

datatype p2p_component = NoP2P | UndecodableP2P | P2P peer_id

record AddrInfo =
  ID :: peer_id
  Addrs :: "string list"

record Multiaddr =
  p2p :: p2p_component
  addrInfo :: "net_error + AddrInfo"

record Replicator =
  Info :: AddrInfo
  Schemas :: "string list"

record PushLogRequest =
  req_DocKey :: string
  req_Cid :: cid
  req_SchemaID :: string
  req_Creator :: string
  req_Block :: bytes

record Update =
  upd_DocKey :: string
  upd_Cid :: cid
  upd_SchemaID :: string
  upd_Block :: bytes
  upd_Priority :: "64 word"

record ipld_node =
  nd_RawData :: bytes
  nd_Links :: "cid list"

datatype process_outcome = StoreFails | DeltaDecodeFails | MergeFails | ProcessOk
datatype commit_outcome = CommitOk | CommitConflict | CommitFails
datatype txn_event = TxnOpen | TxnDiscard | TxnCommit

text \<open>
  What the peer cannot decide itself: the answers of the database, of libp2p and of the
  pubsub backend. Calls that are made several times in one operation are indexed by their
  position (\<open>newTxn_fails i\<close> is the \<open>i\<close>-th transaction opened by the operation).
\<close>

record world =
  collections :: "Collection list"
  getAllCollections_fails :: bool
  newTxn_fails :: "nat \<Rightarrow> bool"
  txnCommit_fails :: bool
  db_SetReplicator_fails :: bool
  db_DeleteReplicator_fails :: bool
  getAllDocKeys_fails :: "string \<Rightarrow> bool"
  heads :: "string \<Rightarrow> cid list option"
  dag_readable :: "cid \<Rightarrow> bool"
  ListPeers :: "topic \<Rightarrow> peer_id list"
  valid_DocKey :: "string \<Rightarrow> bool"
  newTopic_fails :: "topic \<Rightarrow> bool"
  topicClose_fails :: "topic \<Rightarrow> bool"
  marshal_fails :: bool
  publish_fails :: "topic \<Rightarrow> bool"
  blockstore_Has_fails :: bool
  MaxTxnRetries :: nat
  decodeBlockBuffer :: "bytes \<Rightarrow> cid \<Rightarrow> net_error + ipld_node"
  processLog_outcome :: "nat \<Rightarrow> process_outcome"
  handleChildBlocks :: "string \<Rightarrow> cid list \<Rightarrow> cid set \<times> (string \<times> cid) list
                          \<Rightarrow> cid set \<times> (string \<times> cid) list"
  commit_outcome :: "nat \<Rightarrow> commit_outcome"
  decode_Creator :: "string \<Rightarrow> peer_id option"
  emit_fails :: bool

subsection \<open>State of the peer and its server\<close>

text \<open>\<open>pubsubTopic\<close>: the backend handle and whether it is subscribed.\<close>

record pubsubTopic =
  handle :: nat
  subscribed :: bool

text \<open>
  The mutable state of \<open>Peer\<close> and of its \<open>server\<close>, with the state of the
  collaborators the operations write to: the peerstore of the host, the replicators and
  blocks the database holds, the merges applied to it, and what was sent and logged.
\<close>

record Peer =
  host_ID :: peer_id
  ps_present :: bool
  replicators :: "(string \<times> peer_id set) list"
  peerstore :: "peer_id \<rightharpoonup> string list"
  db_replicators :: "(peer_id \<times> string list) list"
  txn_events :: "txn_event list"
  pushed :: "(peer_id \<times> string \<times> cid) set"
  topics :: "topic \<rightharpoonup> pubsubTopic"
  next_handle :: nat
  closed_handles :: "nat list"
  published :: "(topic \<times> PushLogRequest) list"
  logs :: "log_entry list"
  docQueue :: "string set"
  queuedChildren :: "cid set"
  blocks :: "cid set"
  merged :: "(string \<times> cid) list"
  pushLogEmitter :: bool
  received_events :: "(peer_id \<times> peer_id option) list"

subsection \<open>Topics (server.go)\<close>

text \<open>
  \<open>server.addPubSubTopic\<close>. A failing \<open>Close\<close> or \<open>rpc.NewTopic\<close> returns the error; a
  topic closed before the failing \<open>NewTopic\<close> stays in the map.
\<close>

definition addPubSubTopic :: "world \<Rightarrow> topic \<Rightarrow> bool \<Rightarrow> Peer \<Rightarrow> Peer \<times> net_error option" where
  "addPubSubTopic w tp subscribe s =
     (if \<not> ps_present s then (s, None)
      else
        (let create = (\<lambda>s1.
               if newTopic_fails w tp then (s1, Some ErrNewTopic)
               else (s1\<lparr>topics := (topics s1)(tp \<mapsto> \<lparr>handle = next_handle s1, subscribed = subscribe\<rparr>),
                         next_handle := Suc (next_handle s1)\<rparr>, None))
         in case topics s tp of
              Some t \<Rightarrow>
                if \<not> subscribed t \<and> subscribe then
                  (if topicClose_fails w tp then (s, Some ErrTopicClose)
                   else create (s\<lparr>closed_handles := closed_handles s @ [handle t]\<rparr>))
                else (s, None)
            | None \<Rightarrow> create s))"

definition hasPubSubTopic :: "topic \<Rightarrow> Peer \<Rightarrow> bool" where
  "hasPubSubTopic tp s = (topics s tp \<noteq> None)"

definition removePubSubTopic :: "world \<Rightarrow> topic \<Rightarrow> Peer \<Rightarrow> Peer \<times> net_error option" where
  "removePubSubTopic w tp s =
     (if \<not> ps_present s then (s, None)
      else case topics s tp of
             Some t \<Rightarrow>
               (s\<lparr>topics := (topics s)(tp := None),
                   closed_handles := (if topicClose_fails w tp then closed_handles s
                                      else closed_handles s @ [handle t])\<rparr>,
                if topicClose_fails w tp then Some ErrTopicClose else None)
           | None \<Rightarrow> (s, None))"

text \<open>The three states a topic can be in.\<close>

datatype topic_state = Absent | PublishOnly | Subscribed

definition topic_state_of :: "Peer \<Rightarrow> topic \<Rightarrow> topic_state" where
  "topic_state_of s tp =
     (case topics s tp of
        None \<Rightarrow> Absent
      | Some t \<Rightarrow> if subscribed t then Subscribed else PublishOnly)"

text \<open>
  \<open>server.publishLog\<close>. For an absent topic it creates a publish-only one and calls itself
  again; that call finds the topic just stored, so it is unfolded once here, and
  \<open>ErrNoProgress\<close> marks the case in which it would not find it.
\<close>

definition publish_on :: "world \<Rightarrow> topic \<Rightarrow> PushLogRequest \<Rightarrow> Peer \<Rightarrow> Peer \<times> net_error option" where
  "publish_on w tp req s =
     (if marshal_fails w then (s, Some (Wrap ''failed marshling pubsub message'' ErrMarshal))
      else if publish_fails w tp then (s, Some (Wrap ''failed publishing to thread'' ErrPublish))
      else (s\<lparr>published := published s @ [(tp, req)]\<rparr>, None))"

definition publishLog :: "world \<Rightarrow> topic \<Rightarrow> PushLogRequest \<Rightarrow> Peer \<Rightarrow> Peer \<times> net_error option" where
  "publishLog w tp req s =
     (if \<not> ps_present s then (s, None)
      else case topics s tp of
             Some t \<Rightarrow> publish_on w tp req s
           | None \<Rightarrow>
               (case addPubSubTopic w tp False s of
                  (s1, Some err) \<Rightarrow> (s1, Some (Wrap ''failed to created single use topic'' err))
                | (s1, None) \<Rightarrow>
                    (case topics s1 tp of
                       Some t \<Rightarrow> publish_on w tp req s1
                     | None \<Rightarrow> (s1, Some ErrNoProgress))))"

subsection \<open>The broadcast loop (peer.go)\<close>

definition make_request :: "Peer \<Rightarrow> string \<Rightarrow> cid \<Rightarrow> string \<Rightarrow> bytes \<Rightarrow> PushLogRequest" where
  "make_request p dockey c schemaID raw =
     \<lparr>req_DocKey = dockey, req_Cid = c, req_SchemaID = schemaID,
      req_Creator = host_ID p, req_Block = raw\<rparr>"

text \<open>\<open>Peer.RegisterNewDocument\<close>.\<close>

definition RegisterNewDocument ::
  "world \<Rightarrow> string \<Rightarrow> cid \<Rightarrow> bytes \<Rightarrow> string \<Rightarrow> Peer \<Rightarrow> Peer \<times> net_error option" where
  "RegisterNewDocument w dockey c raw schemaID p =
     (case addPubSubTopic w dockey (\<not> hasPubSubTopic schemaID p) p of
        (p1, Some err) \<Rightarrow>
          (p1\<lparr>logs := logs p1 @ [LogError ''Failed to create new pubsub topic'' err]\<rparr>, Some err)
      | (p1, None) \<Rightarrow> publishLog w schemaID (make_request p1 dockey c schemaID raw) p1)"

text \<open>
  \<open>Peer.pushLogToReplicators\<close>: one push for every replicator of the schema that is not
  listed as a peer of the document topic or of the schema topic. Each push runs in a
  goroutine of its own and its failure is only logged, so the pushes are a set.
\<close>

definition pushLogToReplicators :: "world \<Rightarrow> Update \<Rightarrow> Peer \<Rightarrow> Peer" where
  "pushLogToReplicators w lg p =
     (let peers = set (ListPeers w (upd_DocKey lg)) \<union> set (ListPeers w (upd_SchemaID lg))
      in case map_of (replicators p) (upd_SchemaID lg) of
           None \<Rightarrow> p
         | Some reps \<Rightarrow>
             p\<lparr>pushed := pushed p \<union> (\<lambda>pid. (pid, upd_DocKey lg, upd_Cid lg)) ` (reps - peers)\<rparr>)"

definition handleDocCreateLog :: "world \<Rightarrow> Update \<Rightarrow> Peer \<Rightarrow> Peer \<times> net_error option" where
  "handleDocCreateLog w evt p =
     (if \<not> valid_DocKey w (upd_DocKey evt)
      then (p, Some (Wrap ''failed to get DocKey from broadcast message'' ErrInvalidDocKey))
      else
        (case RegisterNewDocument w (upd_DocKey evt) (upd_Cid evt) (upd_Block evt) (upd_SchemaID evt) p of
           (p1, Some err) \<Rightarrow> (p1, Some err)
         | (p1, None) \<Rightarrow> (pushLogToReplicators w evt p1, None)))"

definition handleDocUpdateLog :: "world \<Rightarrow> Update \<Rightarrow> Peer \<Rightarrow> Peer \<times> net_error option" where
  "handleDocUpdateLog w evt p =
     (if \<not> valid_DocKey w (upd_DocKey evt)
      then (p, Some (Wrap ''failed to get DocKey from broadcast message'' ErrInvalidDocKey))
      else
        (let req = make_request p (upd_DocKey evt) (upd_Cid evt) (upd_SchemaID evt) (upd_Block evt);
             p1 = pushLogToReplicators w evt p
         in case publishLog w (upd_DocKey evt) req p1 of
              (p2, Some err) \<Rightarrow> (p2, Some (Wrap ''can't publish log for dockey'' err))
            | (p2, None) \<Rightarrow>
                (case publishLog w (upd_SchemaID evt) req p2 of
                   (p3, Some err) \<Rightarrow> (p3, Some (Wrap ''can't publish log for schemaID'' err))
                 | (p3, None) \<Rightarrow> (p3, None))))"

text \<open>One turn of \<open>Peer.handleBroadcastLoop\<close>, for an update read from the channel.\<close>

definition handleBroadcast :: "world \<Rightarrow> Update \<Rightarrow> Peer \<Rightarrow> Peer" where
  "handleBroadcast w update p =
     (let (p1, err) =
            (if upd_Priority update = 1 then handleDocCreateLog w update p
             else if upd_Priority update > 1 then handleDocUpdateLog w update p
             else (p\<lparr>logs := logs p @ [LogInfo ''Skipping log with invalid priority of 0'']\<rparr>, None))
      in case err of
           None \<Rightarrow> p1
         | Some e \<Rightarrow> p1\<lparr>logs := logs p1 @ [LogError ''Error while handling broadcast log'' e]\<rparr>)"

subsection \<open>Replicators (peer.go)\<close>

definition GetCollectionByName :: "world \<Rightarrow> string \<Rightarrow> net_error + Collection" where
  "GetCollectionByName w cName =
     (case find (\<lambda>col. Name col = cName) (collections w) of
        None \<Rightarrow> Inl (ErrCollectionNotFound cName)
      | Some col \<Rightarrow> Inr col)"

fun collectionsByName :: "world \<Rightarrow> string list \<Rightarrow> net_error + Collection list" where
  "collectionsByName w [] = Inr []"
| "collectionsByName w (cName # rest) =
     (case GetCollectionByName w cName of
        Inl err \<Rightarrow> Inl (Wrap ''failed to get collection for replicator'' err)
      | Inr col \<Rightarrow>
          (case collectionsByName w rest of
             Inl err \<Rightarrow> Inl err
           | Inr cols \<Rightarrow> Inr (col # cols)))"

text \<open>The collections an operation is about: all of them when no name is given.\<close>

definition verifyCollections :: "world \<Rightarrow> string list \<Rightarrow> net_error + Collection list" where
  "verifyCollections w collectionNames =
     (if collectionNames = [] then
        (if getAllCollections_fails w
         then Inl (Wrap ''failed to get all collections for replicator'' ErrStoreCall)
         else Inr (collections w))
      else collectionsByName w collectionNames)"

text \<open>
  The loop of \<open>setReplicator\<close> under the mutex: it adds the peer to the set of each schema
  in turn and stops at the first schema that already lists it, keeping what it has added.
\<close>

fun addReplicators ::
  "Collection list \<Rightarrow> peer_id \<Rightarrow> (string \<times> peer_id set) list
     \<Rightarrow> (string \<times> peer_id set) list \<times> net_error option" where
  "addReplicators [] pid reps = (reps, None)"
| "addReplicators (col # cols) pid reps =
     (case map_of reps (SchemaID col) of
        Some rs \<Rightarrow>
          if pid \<in> rs then (reps, Some (ErrReplicatorExists (Name col) pid))
          else addReplicators cols pid (AList.update (SchemaID col) (insert pid rs) reps)
      | None \<Rightarrow> addReplicators cols pid (AList.update (SchemaID col) {pid} reps))"

text \<open>
  Modelled from the spec: \<open>db.SetReplicator\<close> and \<open>db.DeleteReplicator\<close> are not among
  the sources. The database keeps one replicator record per peer, carrying its schema list;
  setting adds the schemas to the record, deleting removes them and drops a record left
  without schemas.
\<close>

definition db_SetReplicator :: "Replicator \<Rightarrow> (peer_id \<times> string list) list \<Rightarrow> (peer_id \<times> string list) list" where
  "db_SetReplicator rep recs =
     AList.update (ID (Info rep))
       (List.union (case map_of recs (ID (Info rep)) of None \<Rightarrow> [] | Some ss \<Rightarrow> ss) (Schemas rep)) recs"

definition db_DeleteReplicator :: "Replicator \<Rightarrow> (peer_id \<times> string list) list \<Rightarrow> (peer_id \<times> string list) list" where
  "db_DeleteReplicator rep recs =
     (case map_of recs (ID (Info rep)) of
        None \<Rightarrow> recs
      | Some ss \<Rightarrow>
          (let left = filter (\<lambda>s. s \<notin> set (Schemas rep)) ss
           in if left = [] then AList.delete (ID (Info rep)) recs
              else AList.update (ID (Info rep)) left recs))"

text \<open>
  \<open>Peer.pushToReplicator\<close>: for every document key of the collection and every head of
  the document whose block can be read and decoded, one push to the peer. A key whose heads
  cannot be listed and a block that cannot be read are logged and skipped; so is a push
  that fails.
\<close>

definition pushToReplicator :: "world \<Rightarrow> Collection \<Rightarrow> peer_id \<Rightarrow> Peer \<Rightarrow> Peer" where
  "pushToReplicator w col pid p =
     p\<lparr>pushed := pushed p \<union>
          set (concat (map (\<lambda>k. case heads w k of
                                   None \<Rightarrow> []
                                 | Some cids \<Rightarrow> map (\<lambda>c. (pid, k, c)) (filter (dag_readable w) cids))
                 (DocKeys col)))\<rparr>"

text \<open>The second loop of \<open>setReplicator\<close>; \<open>i\<close> counts the transactions opened so far.\<close>

fun pushCollections ::
  "world \<Rightarrow> nat \<Rightarrow> Collection list \<Rightarrow> peer_id \<Rightarrow> Peer \<Rightarrow> Peer \<times> net_error option" where
  "pushCollections w i [] pid p = (p, None)"
| "pushCollections w i (col # cols) pid p =
     (if newTxn_fails w i then (p, Some (Wrap ''failed to get txn'' ErrNewTxn))
      else
        (let p1 = p\<lparr>txn_events := txn_events p @ [TxnOpen]\<rparr>
         in if getAllDocKeys_fails w (Name col)
            then (p1\<lparr>txn_events := txn_events p1 @ [TxnDiscard]\<rparr>,
                  Some (Wrap ''Failed to get dockey for replicator'' ErrDocKeys))
            else pushCollections w (Suc i) cols pid (pushToReplicator w col pid p1)))"

text \<open>\<open>Peer.setReplicator\<close>: the peer ID it returns, the error, and the state it leaves.\<close>

definition setReplicator ::
  "world \<Rightarrow> Multiaddr \<Rightarrow> string list \<Rightarrow> Peer \<Rightarrow> Peer \<times> peer_id \<times> net_error option" where
  "setReplicator w paddr collectionNames p =
     (case verifyCollections w collectionNames of
        Inl err \<Rightarrow> (p, [], Some err)
      | Inr cols \<Rightarrow>
          (case p2p paddr of
             NoP2P \<Rightarrow> (p, [], Some ErrNoP2PComponent)
           | UndecodableP2P \<Rightarrow> (p, [], Some ErrPeerDecode)
           | P2P pid \<Rightarrow>
               if pid = host_ID p then (p, pid, Some ErrSelfTarget)
               else
                 (case addrInfo paddr of
                    Inl err \<Rightarrow> (p, pid, Some (Wrap ''Failed to address info'' err))
                  | Inr info \<Rightarrow>
                      (let p1 = p\<lparr>peerstore := (peerstore p)(ID info \<mapsto>
                                  (case peerstore p (ID info) of None \<Rightarrow> [] | Some as \<Rightarrow> as) @ Addrs info)\<rparr>
                       in case addReplicators cols pid (replicators p1) of
                            (reps, Some err) \<Rightarrow> (p1\<lparr>replicators := reps\<rparr>, pid, Some err)
                          | (reps, None) \<Rightarrow>
                              (let p2 = p1\<lparr>replicators := reps\<rparr>
                               in if db_SetReplicator_fails w
                                  then (p2, pid, Some (Wrap ''failed to persist replicator'' ErrPersist))
                                  else
                                    (let p3 = p2\<lparr>db_replicators :=
                                           db_SetReplicator \<lparr>Info = info, Schemas = map SchemaID cols\<rparr>
                                             (db_replicators p2)\<rparr>
                                     in case pushCollections w 1 cols pid p3 of
                                          (p4, err) \<Rightarrow> (p4, pid, err)))))))"

text \<open>\<open>Peer.SetReplicator\<close>: the transaction around \<open>setReplicator\<close>.\<close>

definition SetReplicator ::
  "world \<Rightarrow> Multiaddr \<Rightarrow> string list \<Rightarrow> Peer \<Rightarrow> Peer \<times> peer_id \<times> net_error option" where
  "SetReplicator w paddr collectionNames p =
     (if newTxn_fails w 0 then (p, [], Some ErrNewTxn)
      else
        (case setReplicator w paddr collectionNames (p\<lparr>txn_events := txn_events p @ [TxnOpen]\<rparr>) of
           (p1, pid, Some err) \<Rightarrow> (p1\<lparr>txn_events := txn_events p1 @ [TxnDiscard]\<rparr>, [], Some err)
         | (p1, pid, None) \<Rightarrow>
             if txnCommit_fails w then (p1, pid, Some ErrCommit)
             else (p1\<lparr>txn_events := txn_events p1 @ [TxnCommit]\<rparr>, pid, None)))"

text \<open>\<open>Peer.deleteReplicator\<close>.\<close>

definition deleteReplicator ::
  "world \<Rightarrow> peer_id \<Rightarrow> string list \<Rightarrow> Peer \<Rightarrow> Peer \<times> net_error option" where
  "deleteReplicator w pid collectionNames p =
     (if pid = host_ID p then (p, Some ErrSelfTarget)
      else
        (case verifyCollections w collectionNames of
           Inl err \<Rightarrow> (p, Some err)
         | Inr cols \<Rightarrow>
             (let schemas = map SchemaID cols;
                  reps = map (\<lambda>(schema, rep).
                           if pid \<in> rep \<and> schema \<in> set schemas then (schema, rep - {pid})
                           else (schema, rep)) (replicators p);
                  totalSchemas = length (filter (\<lambda>(schema, rep). pid \<in> rep \<and> schema \<notin> set schemas)
                                   (replicators p));
                  p1 = p\<lparr>replicators := reps,
                         peerstore := (if totalSchemas = 0 then (peerstore p)(pid := None)
                                       else peerstore p)\<rparr>
              in if db_DeleteReplicator_fails w then (p1, Some ErrPersist)
                 else (p1\<lparr>db_replicators :=
                          db_DeleteReplicator \<lparr>Info = \<lparr>ID = pid, Addrs = []\<rparr>, Schemas = schemas\<rparr>
                            (db_replicators p1)\<rparr>, None))))"

text \<open>\<open>Peer.DeleteReplicator\<close>: the transaction around \<open>deleteReplicator\<close>.\<close>

definition DeleteReplicator ::
  "world \<Rightarrow> peer_id \<Rightarrow> string list \<Rightarrow> Peer \<Rightarrow> Peer \<times> net_error option" where
  "DeleteReplicator w pid collectionNames p =
     (if newTxn_fails w 0 then (p, Some ErrNewTxn)
      else
        (case deleteReplicator w pid collectionNames (p\<lparr>txn_events := txn_events p @ [TxnOpen]\<rparr>) of
           (p1, Some err) \<Rightarrow> (p1\<lparr>txn_events := txn_events p1 @ [TxnDiscard]\<rparr>, Some err)
         | (p1, None) \<Rightarrow>
             if txnCommit_fails w then (p1, Some ErrCommit)
             else (p1\<lparr>txn_events := txn_events p1 @ [TxnCommit]\<rparr>, None)))"

subsection \<open>The push handler (server.go)\<close>

text \<open>
  A transaction works on a copy of the blocks and of the merges applied; a commit that
  succeeds makes the copy the state of the database, anything else leaves the database as
  it was.
\<close>

type_synonym txn = "cid set \<times> (string \<times> cid) list"

text \<open>
  Modelled from the spec: \<open>Peer.processLog\<close> is not among the sources. It stores the
  block, decodes its delta, merges it into the CRDT, and returns the parents the block
  refers to that are not yet present. It can fail at each of the three steps, which the
  world decides for each attempt; a failure leaves what the earlier steps wrote.
  \<open>Peer.handleChildBlocks\<close>, which fetches and processes those parents, is not among the
  sources either: the world gives its effect on the transaction, the signal on
  \<open>closeJob\<close> that follows it included.
\<close>

definition processLog ::
  "world \<Rightarrow> nat \<Rightarrow> string \<Rightarrow> cid \<Rightarrow> ipld_node \<Rightarrow> txn \<Rightarrow> txn \<times> cid list \<times> net_error option" where
  "processLog w retry dockey c nd t =
     (case processLog_outcome w retry of
        StoreFails \<Rightarrow> (t, [], Some ErrBlockPut)
      | DeltaDecodeFails \<Rightarrow> ((insert c (fst t), snd t), [], Some ErrDeltaDecode)
      | MergeFails \<Rightarrow> ((insert c (fst t), snd t), [], Some ErrMerge)
      | ProcessOk \<Rightarrow>
          ((insert c (fst t), snd t @ [(dockey, c)]),
           filter (\<lambda>l. l \<notin> insert c (fst t)) (nd_Links nd), None))"

definition GetCollectionBySchemaID :: "world \<Rightarrow> string \<Rightarrow> net_error + Collection" where
  "GetCollectionBySchemaID w schemaID =
     (case find (\<lambda>col. SchemaID col = schemaID) (collections w) of
        None \<Rightarrow> Inl (ErrCollectionNotFound schemaID)
      | Some col \<Rightarrow> Inr col)"

text \<open>
  The retry loop of \<open>server.PushLog\<close>: \<open>n\<close> attempts are left, \<open>retry\<close> is the number of
  the attempt and \<open>txnErr\<close> the error of the last commit. The deferred \<open>txn.Discard\<close> of an
  attempt is recorded where the attempt ends without a commit.
\<close>

fun pushLog_attempts ::
  "world \<Rightarrow> PushLogRequest \<Rightarrow> nat \<Rightarrow> nat \<Rightarrow> net_error option \<Rightarrow> Peer \<Rightarrow> Peer \<times> net_error option" where
  "pushLog_attempts w req 0 retry txnErr p = (p, Some (ErrMaxTxnRetries txnErr))"
| "pushLog_attempts w req (Suc n) retry txnErr p =
     (if newTxn_fails w retry then (p, Some ErrNewTxn)
      else
        (let p1 = p\<lparr>txn_events := txn_events p @ [TxnOpen]\<rparr>;
             discarded = p1\<lparr>txn_events := txn_events p1 @ [TxnDiscard]\<rparr>
         in case GetCollectionBySchemaID w (req_SchemaID req) of
              Inl err \<Rightarrow> (discarded, Some (Wrap ''Failed to get collection from schemaID'' err))
            | Inr col \<Rightarrow>
                (case decodeBlockBuffer w (req_Block req) (req_Cid req) of
                   Inl err \<Rightarrow> (discarded, Some (Wrap ''failed to decode block to ipld.Node'' err))
                 | Inr nd \<Rightarrow>
                     (case processLog w retry (req_DocKey req) (req_Cid req) nd (blocks p1, merged p1) of
                        (t1, cids, perr) \<Rightarrow>
                          (let p2 = (case perr of
                                       None \<Rightarrow> p1
                                     | Some err \<Rightarrow>
                                         p1\<lparr>logs := logs p1 @ [LogError ''Failed to process PushLog node'' err]\<rparr>);
                               t2 = (if length cids > 0
                                     then handleChildBlocks w (req_DocKey req) cids t1 else t1)
                           in case commit_outcome w retry of
                                CommitConflict \<Rightarrow>
                                  pushLog_attempts w req n (Suc retry) (Some ErrTxnConflict)
                                    (p2\<lparr>txn_events := txn_events p2 @ [TxnDiscard]\<rparr>)
                              | CommitFails \<Rightarrow>
                                  (p2\<lparr>txn_events := txn_events p2 @ [TxnDiscard]\<rparr>, Some ErrCommit)
                              | CommitOk \<Rightarrow>
                                  (let p3 = p2\<lparr>blocks := fst t2, merged := snd t2,
                                               txn_events := txn_events p2 @ [TxnCommit]\<rparr>
                                   in if \<not> hasPubSubTopic (SchemaID col) p3
                                      then addPubSubTopic w (req_DocKey req) True p3
                                      else (p3, None)))))))"

text \<open>
  The deferred function of \<open>server.PushLog\<close>: it leaves the document queue and, with an
  emitter, emits \<open>EvtReceivedPushLog\<close>; a creator that does not decode and an emit that
  fails are logged.
\<close>

definition pushLog_deferred :: "world \<Rightarrow> peer_id \<Rightarrow> PushLogRequest \<Rightarrow> Peer \<Rightarrow> Peer" where
  "pushLog_deferred w pid req p =
     (let p1 = p\<lparr>docQueue := docQueue p - {req_DocKey req}\<rparr>
      in if pushLogEmitter p1 then
           (let byPeer = decode_Creator w (req_Creator req);
                p2 = (if byPeer = None
                      then p1\<lparr>logs := logs p1 @ [LogInfo ''could not decode the peer id of the log creator'']\<rparr>
                      else p1)
            in if emit_fails w
               then p2\<lparr>logs := logs p2 @ [LogInfo ''could not emit push log event'']\<rparr>
               else p2\<lparr>received_events := received_events p2 @ [(pid, byPeer)]\<rparr>)
         else p1)"

text \<open>
  \<open>server.PushLog\<close>. \<open>ctx\<close> is what \<open>peerIDFromContext\<close> makes of the context. The result
  is \<open>None\<close> when the call waits in \<open>docQueue.add\<close> for a document that no one releases;
  otherwise it is the state the call leaves and the error it returns.
\<close>

definition PushLog ::
  "world \<Rightarrow> net_error + peer_id \<Rightarrow> PushLogRequest \<Rightarrow> Peer \<Rightarrow> (Peer \<times> net_error option) option" where
  "PushLog w ctx req p =
     (case ctx of
        Inl err \<Rightarrow> Some (p, Some err)
      | Inr pid \<Rightarrow>
          if req_DocKey req \<in> docQueue p then None
          else
            (let p1 = p\<lparr>docQueue := insert (req_DocKey req) (docQueue p)\<rparr>;
                 (p4, err) =
                   (if req_Cid req \<in> queuedChildren p1 then (p1, None)
                    else
                      (let p2 = p1\<lparr>queuedChildren := insert (req_Cid req) (queuedChildren p1)\<rparr>;
                           (p3, err) =
                             (if blockstore_Has_fails w
                              then (p2, Some (Wrap ''failed to check for existing block'' ErrBlockstore))
                              else if req_Cid req \<in> blocks p2 then (p2, None)
                              else pushLog_attempts w req (MaxTxnRetries w) 0 None p2)
                       in (p3\<lparr>queuedChildren := queuedChildren p3 - {req_Cid req}\<rparr>, err)))
             in Some (pushLog_deferred w pid req p4, err)))"

subsection \<open>Example data\<close>

definition ex_consts :: crdt_consts where
  "ex_consts = \<lparr>LWW_REGISTER = 1, DeletedObjectMarker = 2\<rparr>"

definition ex_reg :: LWWRegister where
  "ex_reg = \<lparr>key = \<lparr>CollectionID = ''1'', InstanceType = NoFlag, DocKey = ''bae-1'', FieldId = ''1''\<rparr>,
              schemaVersionKey = ''v1''\<rparr>"

definition ex_store :: store where
  "ex_store = \<lparr>kv = [DataKey (WithValueFlag (key ex_reg)) \<mapsto> [1, 0x63]],
                prio = [DataKey (WithPriorityFlag (key ex_reg)) \<mapsto> 3],
                get_fails = (\<lambda>_. False), put_fails = (\<lambda>_. False)\<rparr>"

definition ex_delta :: LWWRegDelta where
  "ex_delta = \<lparr>SchemaVersionID = ''v1'', Priority = 4, Data = [0x61], DeltaDocKey = []\<rparr>"

definition ex_store_novalue :: store where
  "ex_store_novalue = \<lparr>kv = Map.empty,
                prio = [DataKey (WithPriorityFlag (key ex_reg)) \<mapsto> 3],
                get_fails = (\<lambda>_. False), put_fails = (\<lambda>_. False)\<rparr>"

definition ex_world :: world where
  "ex_world =
     \<lparr>collections = [\<lparr>Name = ''users'', SchemaID = ''schema-users'', DocKeys = [''bae-doc1'']\<rparr>],
      getAllCollections_fails = False,
      newTxn_fails = (\<lambda>_. False),
      txnCommit_fails = False,
      db_SetReplicator_fails = False,
      db_DeleteReplicator_fails = False,
      getAllDocKeys_fails = (\<lambda>_. False),
      heads = (\<lambda>_. Some []),
      dag_readable = (\<lambda>_. True),
      ListPeers = (\<lambda>_. []),
      valid_DocKey = (\<lambda>_. True),
      newTopic_fails = (\<lambda>_. False),
      topicClose_fails = (\<lambda>_. False),
      marshal_fails = False,
      publish_fails = (\<lambda>_. False),
      blockstore_Has_fails = False,
      MaxTxnRetries = 5,
      decodeBlockBuffer = (\<lambda>b c. Inr \<lparr>nd_RawData = b, nd_Links = []\<rparr>),
      processLog_outcome = (\<lambda>_. ProcessOk),
      handleChildBlocks = (\<lambda>dockey cids txn. txn),
      commit_outcome = (\<lambda>_. CommitOk),
      decode_Creator = (\<lambda>s. Some s),
      emit_fails = False\<rparr>"

definition ex_peer :: Peer where
  "ex_peer =
     \<lparr>host_ID = ''node1'', ps_present = True, replicators = [], peerstore = Map.empty,
      db_replicators = [], txn_events = [], pushed = {}, topics = Map.empty, next_handle = 0,
      closed_handles = [], published = [], logs = [], docQueue = {}, queuedChildren = {},
      blocks = {}, merged = [], pushLogEmitter = True, received_events = []\<rparr>"

definition ex_update :: Update where
  "ex_update =
     \<lparr>upd_DocKey = ''bae-doc1'', upd_Cid = ''cid-X'', upd_SchemaID = ''schema-users'',
      upd_Block = [1, 2, 3], upd_Priority = 1\<rparr>"

definition ex_paddr :: Multiaddr where
  "ex_paddr =
     \<lparr>p2p = P2P ''node2'',
      addrInfo = Inr \<lparr>ID = ''node2'', Addrs = [''/ip4/10.0.0.2/tcp/9171'']\<rparr>\<rparr>"

definition ex_self_paddr :: Multiaddr where
  "ex_self_paddr =
     \<lparr>p2p = P2P ''node1'',
      addrInfo = Inr \<lparr>ID = ''node1'', Addrs = [''/ip4/10.0.0.1/tcp/9171'']\<rparr>\<rparr>"

definition ex_peer_collection :: Peer where
  "ex_peer_collection =
     ex_peer\<lparr>topics := [''schema-users'' \<mapsto> \<lparr>handle = 0, subscribed = True\<rparr>],
             next_handle := 1\<rparr>"

definition ex_request :: PushLogRequest where
  "ex_request =
     \<lparr>req_DocKey = ''bae-doc1'', req_Cid = ''cid-X'', req_SchemaID = ''schema-users'',
      req_Creator = ''node2'', req_Block = [1, 2, 3]\<rparr>"


section \<open>Verified properties\<close>

subsection \<open>LWW-Register\<close>

lemma bytes_Compare_ge_iff: "0 \<le> bytes_Compare a b \<longleftrightarrow> b \<le> a"
  by (induction a b rule: bytes_Compare.induct) auto

lemma marker_case_eq:
  "((case got of Inl _ \<Rightarrow> [] | Inr m \<Rightarrow> m) = [d]) \<longleftrightarrow> got = Inr [d]"
  by (cases got) auto

lemma curValue_case_eq:
  "(if length (case g of Inl _ \<Rightarrow> [] | Inr v \<Rightarrow> v) > 0
    then tl (case g of Inl _ \<Rightarrow> [] | Inr v \<Rightarrow> v)
    else (case g of Inl _ \<Rightarrow> [] | Inr v \<Rightarrow> v))
     = (case g of Inl _ \<Rightarrow> [] | Inr v \<Rightarrow> drop 1 v)"
proof (cases g)
  case (Inl e)
  then show ?thesis by simp
next
  case (Inr v)
  then show ?thesis by (cases v) simp_all
qed

lemma setValue_unfold:
  assumes gp: "getPriority st (key reg) = Inr curPrio"
    and mk: "ds_Get st (ToPrimaryDataStoreKey (key reg)) \<noteq> Inl ErrDatastore"
    and k: "k = DataKey (if ds_Get st (ToPrimaryDataStoreKey (key reg)) = Inr [DeletedObjectMarker c]
                 then WithDeletedFlag (WithValueFlag (key reg)) else WithValueFlag (key reg))"
    and stored: "stored = (case ds_Get st k of Inl _ \<Rightarrow> [] | Inr v \<Rightarrow> drop 1 v)"
  shows "setValue c reg val priority st =
     (if priority < curPrio then (st, None)
      else if priority = curPrio \<and> val \<le> stored then (st, None)
      else (case ds_Put st k (LWW_REGISTER c # val) of
                         Inl err \<Rightarrow> (st, Some (ErrFailedToStoreValue err))
                       | Inr st1 \<Rightarrow>
                           (case setPriority st1 (key reg) priority of
                              Inl err \<Rightarrow> (st1, Some (ErrStore err))
                            | Inr st2 \<Rightarrow> (st2, None))))"
  using mk unfolding setValue_def gp k stored Let_def curValue_case_eq marker_case_eq
  by (simp add: bytes_Compare_ge_iff)

text \<open>
  Claim C1. A merge whose priority is below the stored one leaves the store as it is. At
  equal priority the stored value, without its marker byte, is compared with the delta's
  data in lexicographic order: the store stays as it is when the stored value is greater or
  equal, and is overwritten otherwise. A higher priority overwrites. An overwrite stores the
  marker byte followed by the new value and records the delta's priority.
\<close>

theorem C1_lww_setValue_branches:
  assumes gp: "getPriority st (key reg) = Inr curPrio"
    and mk: "ds_Get st (ToPrimaryDataStoreKey (key reg)) \<noteq> Inl ErrDatastore"
    and k: "k = DataKey (if ds_Get st (ToPrimaryDataStoreKey (key reg)) = Inr [DeletedObjectMarker c]
                 then WithDeletedFlag (WithValueFlag (key reg)) else WithValueFlag (key reg))"
    and stored: "stored = (case ds_Get st k of Inl _ \<Rightarrow> [] | Inr v \<Rightarrow> drop 1 v)"
    and wr: "\<not> put_fails st k" "\<not> put_fails st (DataKey (WithPriorityFlag (key reg)))"
  shows "(priority < curPrio \<longrightarrow> setValue c reg val priority st = (st, None))
       \<and> (priority = curPrio \<and> val \<le> stored \<longrightarrow> setValue c reg val priority st = (st, None))
       \<and> (curPrio < priority \<or> (priority = curPrio \<and> stored < val) \<longrightarrow>
            setValue c reg val priority st =
              (st\<lparr>kv := (kv st)(k \<mapsto> LWW_REGISTER c # val),
                  prio := (prio st)(DataKey (WithPriorityFlag (key reg)) \<mapsto> priority)\<rparr>, None))"
proof -
  note eq = setValue_unfold [OF gp mk k stored]
  have put: "ds_Put st k (LWW_REGISTER c # val) = Inr (st\<lparr>kv := (kv st)(k \<mapsto> LWW_REGISTER c # val)\<rparr>)"
    using wr(1) by (simp add: ds_Put_def)
  have sp: "setPriority (st\<lparr>kv := (kv st)(k \<mapsto> LWW_REGISTER c # val)\<rparr>) (key reg) priority
      = Inr (st\<lparr>kv := (kv st)(k \<mapsto> LWW_REGISTER c # val),
                  prio := (prio st)(DataKey (WithPriorityFlag (key reg)) \<mapsto> priority)\<rparr>)"
    using wr(2) by (simp add: setPriority_def Let_def)
  show ?thesis
    unfolding eq using put sp by auto
qed

lemma getPriority_after_setPriority:
  "setPriority st1 key' p = Inr st2 \<Longrightarrow> getPriority st key' = Inr q \<Longrightarrow>
     get_fails st1 = get_fails st \<Longrightarrow> getPriority st2 key' = Inr p"
  by (auto simp: setPriority_def getPriority_def Let_def split: if_splits)

lemma ds_Put_get_fails: "ds_Put st k v = Inr st1 \<Longrightarrow> get_fails st1 = get_fails st"
  by (auto simp: ds_Put_def split: if_splits)

text \<open>
  Claim C6. After a merge of a delta with priority \<open>p\<close> that returns no error, the
  priority stored for the register's key is at least \<open>p\<close>, whichever branch was taken.
\<close>

theorem C6_merge_priority_lower_bound:
  assumes ok: "Merge c reg (LWWDelta d) st = (st', None)"
  shows "\<exists>q. getPriority st' (key reg) = Inr q \<and> Priority d \<le> q"
proof -
  from ok have sv: "setValue c reg (Data d) (Priority d) st = (st', None)"
    by (simp add: Merge_def)
  show ?thesis
  proof (cases "getPriority st (key reg)")
    case (Inl e)
    with sv show ?thesis by (simp add: setValue_def)
  next
    case (Inr curPrio)
    let ?got = "ds_Get st (ToPrimaryDataStoreKey (key reg))"
    have mk: "?got \<noteq> Inl ErrDatastore"
      using sv Inr by (auto simp: setValue_def Let_def)
    define k where "k = DataKey (if ?got = Inr [DeletedObjectMarker c]
                 then WithDeletedFlag (WithValueFlag (key reg)) else WithValueFlag (key reg))"
    define stored where "stored = (case ds_Get st k of Inl _ \<Rightarrow> [] | Inr v \<Rightarrow> drop 1 v)"
    note eq = setValue_unfold [OF Inr mk k_def stored_def, of "Data d" "Priority d"]
    consider (lower) "Priority d < curPrio"
      | (tie) "Priority d = curPrio" "Data d \<le> stored"
      | (over) "\<not> Priority d < curPrio" "\<not> (Priority d = curPrio \<and> Data d \<le> stored)"
      by blast
    then show ?thesis
    proof cases
      case lower
      with sv eq have "st' = st" by simp
      with Inr lower show ?thesis by simp
    next
      case tie
      with sv eq have "st' = st" by simp
      with Inr tie show ?thesis by simp
    next
      case over
      with sv eq obtain st1 where
        put: "ds_Put st k (LWW_REGISTER c # Data d) = Inr st1"
        and sp: "setPriority st1 (key reg) (Priority d) = Inr st'"
        by (auto split: sum.splits)
      have "getPriority st' (key reg) = Inr (Priority d)"
        using getPriority_after_setPriority [OF sp Inr ds_Put_get_fails [OF put]] .
      then show ?thesis by simp
    qed
  qed
qed

text \<open>
  Claim C9. At equal priority a lookup of the current value that fails is not an error: the
  current value counts as empty, as does a stored value that is empty or holds the marker
  byte only. A delta with data then overwrites, and a delta without data changes nothing.
\<close>

theorem C9_equal_priority_missing_value:
  assumes gp: "getPriority st (key reg) = Inr priority"
    and mk: "ds_Get st (ToPrimaryDataStoreKey (key reg)) \<noteq> Inl ErrDatastore"
    and k: "k = DataKey (if ds_Get st (ToPrimaryDataStoreKey (key reg)) = Inr [DeletedObjectMarker c]
                 then WithDeletedFlag (WithValueFlag (key reg)) else WithValueFlag (key reg))"
    and novalue: "(\<exists>e. ds_Get st k = Inl e) \<or> ds_Get st k = Inr [] \<or> (\<exists>m. ds_Get st k = Inr [m])"
    and wr: "\<not> put_fails st k" "\<not> put_fails st (DataKey (WithPriorityFlag (key reg)))"
  shows "(val \<noteq> [] \<longrightarrow>
            setValue c reg val priority st =
              (st\<lparr>kv := (kv st)(k \<mapsto> LWW_REGISTER c # val),
                  prio := (prio st)(DataKey (WithPriorityFlag (key reg)) \<mapsto> priority)\<rparr>, None))
       \<and> (val = [] \<longrightarrow> setValue c reg val priority st = (st, None))"
proof -
  have stored: "[] = (case ds_Get st k of Inl _ \<Rightarrow> [] | Inr v \<Rightarrow> drop 1 v)"
    using novalue by auto
  note eq = setValue_unfold [OF gp mk k stored]
  have put: "ds_Put st k (LWW_REGISTER c # val) = Inr (st\<lparr>kv := (kv st)(k \<mapsto> LWW_REGISTER c # val)\<rparr>)"
    using wr(1) by (simp add: ds_Put_def)
  have sp: "setPriority (st\<lparr>kv := (kv st)(k \<mapsto> LWW_REGISTER c # val)\<rparr>) (key reg) priority
      = Inr (st\<lparr>kv := (kv st)(k \<mapsto> LWW_REGISTER c # val),
                  prio := (prio st)(DataKey (WithPriorityFlag (key reg)) \<mapsto> priority)\<rparr>)"
    using wr(2) by (simp add: setPriority_def Let_def)
  show ?thesis
    unfolding eq using put sp by auto
qed

lemmas ex_defs = ex_consts_def ex_reg_def ex_store_def WithValueFlag_def WithPriorityFlag_def
  WithDeletedFlag_def ToPrimaryDataStoreKey_def ds_Get_def getPriority_def

text \<open>The four branches of C1 on a register holding \<open>c\<close> at priority 3.\<close>

theorem C1_witness:
  "setValue ex_consts ex_reg [0x64] 3 ex_store =
     (ex_store\<lparr>kv := (kv ex_store)(DataKey (WithValueFlag (key ex_reg)) \<mapsto> [1, 0x64]),
               prio := (prio ex_store)(DataKey (WithPriorityFlag (key ex_reg)) \<mapsto> 3)\<rparr>, None)
   \<and> setValue ex_consts ex_reg [0x62] 3 ex_store = (ex_store, None)
   \<and> setValue ex_consts ex_reg [0x7A] 2 ex_store = (ex_store, None)
   \<and> setValue ex_consts ex_reg [0x61] 4 ex_store =
     (ex_store\<lparr>kv := (kv ex_store)(DataKey (WithValueFlag (key ex_reg)) \<mapsto> [1, 0x61]),
               prio := (prio ex_store)(DataKey (WithPriorityFlag (key ex_reg)) \<mapsto> 4)\<rparr>, None)"
proof -
  have gp: "getPriority ex_store (key ex_reg) = Inr 3"
    by (simp add: ex_defs)
  have mk: "ds_Get ex_store (ToPrimaryDataStoreKey (key ex_reg)) \<noteq> Inl ErrDatastore"
    by (simp add: ex_defs)
  have k: "DataKey (WithValueFlag (key ex_reg)) =
      DataKey (if ds_Get ex_store (ToPrimaryDataStoreKey (key ex_reg)) = Inr [DeletedObjectMarker ex_consts]
                 then WithDeletedFlag (WithValueFlag (key ex_reg)) else WithValueFlag (key ex_reg))"
    by (simp add: ex_defs)
  have stored: "[0x63] = (case ds_Get ex_store (DataKey (WithValueFlag (key ex_reg))) of Inl _ \<Rightarrow> [] | Inr v \<Rightarrow> drop 1 v)"
    by (simp add: ex_defs)
  have wr: "\<not> put_fails ex_store (DataKey (WithValueFlag (key ex_reg)))"
     "\<not> put_fails ex_store (DataKey (WithPriorityFlag (key ex_reg)))"
    by (simp_all add: ex_defs)
  note th = C1_lww_setValue_branches [OF gp mk k stored wr]
  have lw: "(1::8 word) = LWW_REGISTER ex_consts" by (simp add: ex_consts_def)
  show ?thesis
    using th [of 3 "[0x64]"] th [of 3 "[0x62]"] th [of 2 "[0x7A]"] th [of 4 "[0x61]"]
    unfolding lw by simp
qed

text \<open>C6 on a merge at priority 4 into a register at priority 3.\<close>

theorem C6_witness:
  "Merge ex_consts ex_reg (LWWDelta ex_delta) ex_store =
     (ex_store\<lparr>kv := (kv ex_store)(DataKey (WithValueFlag (key ex_reg)) \<mapsto> [1, 0x61]),
               prio := (prio ex_store)(DataKey (WithPriorityFlag (key ex_reg)) \<mapsto> 4)\<rparr>, None)
   \<and> (\<exists>q. getPriority
          (ex_store\<lparr>kv := (kv ex_store)(DataKey (WithValueFlag (key ex_reg)) \<mapsto> [1, 0x61]),
               prio := (prio ex_store)(DataKey (WithPriorityFlag (key ex_reg)) \<mapsto> 4)\<rparr>)
          (key ex_reg) = Inr q \<and> Priority ex_delta \<le> q)"
proof -
  have h: "Merge ex_consts ex_reg (LWWDelta ex_delta) ex_store =
     (ex_store\<lparr>kv := (kv ex_store)(DataKey (WithValueFlag (key ex_reg)) \<mapsto> [1, 0x61]),
               prio := (prio ex_store)(DataKey (WithPriorityFlag (key ex_reg)) \<mapsto> 4)\<rparr>, None)"
    by (simp add: Merge_def setValue_def ex_defs ex_delta_def ds_Put_def setPriority_def Let_def)
  show ?thesis
    using h C6_merge_priority_lower_bound [OF h] by simp
qed

text \<open>C9 on a register with a priority and no value.\<close>

theorem C9_witness:
  "setValue ex_consts ex_reg [0x61] 3 ex_store_novalue =
     (ex_store_novalue\<lparr>kv := (kv ex_store_novalue)(DataKey (WithValueFlag (key ex_reg)) \<mapsto> [1, 0x61]),
               prio := (prio ex_store_novalue)(DataKey (WithPriorityFlag (key ex_reg)) \<mapsto> 3)\<rparr>, None)
   \<and> setValue ex_consts ex_reg [] 3 ex_store_novalue = (ex_store_novalue, None)"
proof -
  have gp: "getPriority ex_store_novalue (key ex_reg) = Inr 3"
    by (simp add: ex_defs ex_store_novalue_def)
  have mk: "ds_Get ex_store_novalue (ToPrimaryDataStoreKey (key ex_reg)) \<noteq> Inl ErrDatastore"
    by (simp add: ex_defs ex_store_novalue_def)
  have k: "DataKey (WithValueFlag (key ex_reg)) =
      DataKey (if ds_Get ex_store_novalue (ToPrimaryDataStoreKey (key ex_reg)) = Inr [DeletedObjectMarker ex_consts]
                 then WithDeletedFlag (WithValueFlag (key ex_reg)) else WithValueFlag (key ex_reg))"
    by (simp add: ex_defs ex_store_novalue_def)
  have nv: "(\<exists>e. ds_Get ex_store_novalue (DataKey (WithValueFlag (key ex_reg))) = Inl e)
      \<or> ds_Get ex_store_novalue (DataKey (WithValueFlag (key ex_reg))) = Inr []
      \<or> (\<exists>m. ds_Get ex_store_novalue (DataKey (WithValueFlag (key ex_reg))) = Inr [m])"
    by (simp add: ex_defs ex_store_novalue_def)
  have wr: "\<not> put_fails ex_store_novalue (DataKey (WithValueFlag (key ex_reg)))"
     "\<not> put_fails ex_store_novalue (DataKey (WithPriorityFlag (key ex_reg)))"
    by (simp_all add: ex_defs ex_store_novalue_def)
  note th = C9_equal_priority_missing_value [OF gp mk k nv wr]
  have lw: "(1::8 word) = LWW_REGISTER ex_consts" by (simp add: ex_consts_def)
  show ?thesis
    using th [of "[0x61]"] th [of "[]"] unfolding lw by simp
qed

subsection \<open>Topics and the broadcast loop\<close>

text \<open>
  Claim C7. With a pubsub backend, a topic is absent, publish-only or subscribed, and
  \<open>addPubSubTopic\<close> moves it as follows. A subscribed topic is left alone and the call
  succeeds. A publish-only topic asked to subscribe has its handle closed and a new,
  subscribed handle stored in its place. An absent topic gets a new handle with the mode
  asked for. No other topic changes state. The two transitions that call the backend are
  stated for calls the backend does not refuse.
\<close>

theorem C7_addPubSubTopic_transitions:
  assumes ps: "ps_present s"
  shows "(topic_state_of s tp = Subscribed \<longrightarrow> addPubSubTopic w tp sub s = (s, None))
     \<and> (topic_state_of s tp = PublishOnly \<and> sub \<and> \<not> topicClose_fails w tp \<and> \<not> newTopic_fails w tp \<longrightarrow>
          (\<exists>t. topics s tp = Some t \<and>
             addPubSubTopic w tp sub s =
               (s\<lparr>closed_handles := closed_handles s @ [handle t],
                   topics := (topics s)(tp \<mapsto> \<lparr>handle = next_handle s, subscribed = True\<rparr>),
                   next_handle := Suc (next_handle s)\<rparr>, None)))
     \<and> (topic_state_of s tp = Absent \<and> \<not> newTopic_fails w tp \<longrightarrow>
          addPubSubTopic w tp sub s =
            (s\<lparr>topics := (topics s)(tp \<mapsto> \<lparr>handle = next_handle s, subscribed = sub\<rparr>),
                next_handle := Suc (next_handle s)\<rparr>, None))
     \<and> (\<forall>tp'. tp' \<noteq> tp \<longrightarrow>
           topic_state_of (fst (addPubSubTopic w tp sub s)) tp' = topic_state_of s tp')"
  using ps
  by (auto simp: addPubSubTopic_def topic_state_of_def Let_def split: option.splits if_splits)

text \<open>
  The three transitions of C7 on the document topic \<open>bae-doc1\<close>.
\<close>

theorem C7_witness:
  "addPubSubTopic ex_world ''bae-doc1'' True
       (ex_peer\<lparr>topics := [''bae-doc1'' \<mapsto> \<lparr>handle = 7, subscribed = False\<rparr>], next_handle := 8\<rparr>)
     = (ex_peer\<lparr>topics := [''bae-doc1'' \<mapsto> \<lparr>handle = 8, subscribed = True\<rparr>], next_handle := 9,
                closed_handles := [7]\<rparr>, None)
   \<and> addPubSubTopic ex_world ''bae-doc1'' True
       (ex_peer\<lparr>topics := [''bae-doc1'' \<mapsto> \<lparr>handle = 8, subscribed = True\<rparr>]\<rparr>)
     = (ex_peer\<lparr>topics := [''bae-doc1'' \<mapsto> \<lparr>handle = 8, subscribed = True\<rparr>]\<rparr>, None)
   \<and> addPubSubTopic ex_world ''bae-doc1'' False ex_peer
     = (ex_peer\<lparr>topics := [''bae-doc1'' \<mapsto> \<lparr>handle = 0, subscribed = False\<rparr>], next_handle := 1\<rparr>, None)"
proof -
  have ps1: "ps_present (ex_peer\<lparr>topics := [''bae-doc1'' \<mapsto> \<lparr>handle = 7, subscribed = False\<rparr>], next_handle := 8\<rparr>)"
    and ps2: "ps_present (ex_peer\<lparr>topics := [''bae-doc1'' \<mapsto> \<lparr>handle = 8, subscribed = True\<rparr>]\<rparr>)"
    and ps3: "ps_present ex_peer"
    by (simp_all add: ex_peer_def)
  show ?thesis
    using C7_addPubSubTopic_transitions [OF ps1, of "''bae-doc1''" ex_world True]
      C7_addPubSubTopic_transitions [OF ps2, of "''bae-doc1''" ex_world True]
      C7_addPubSubTopic_transitions [OF ps3, of "''bae-doc1''" ex_world False]
    by (simp add: topic_state_of_def ex_world_def ex_peer_def)
qed

lemma addPubSubTopic_doc_state:
  assumes "ps_present p" "\<not> newTopic_fails w d" "\<not> topicClose_fails w d"
  shows "\<exists>p1. addPubSubTopic w d sub p = (p1, None)
      \<and> ps_present p1 \<and> published p1 = published p \<and> logs p1 = logs p \<and> host_ID p1 = host_ID p
      \<and> (\<forall>t. t \<noteq> d \<longrightarrow> topics p1 t = topics p t)
      \<and> topic_state_of p1 d =
          (if sub then Subscribed
           else if topic_state_of p d = Absent then PublishOnly else topic_state_of p d)"
  using assms
  by (auto simp: addPubSubTopic_def topic_state_of_def Let_def split: option.splits)

lemma publishLog_schema_state:
  assumes "ps_present p1" "\<not> newTopic_fails w s" "\<not> marshal_fails w" "\<not> publish_fails w s"
  shows "\<exists>p2. publishLog w s req p1 = (p2, None)
      \<and> published p2 = published p1 @ [(s, req)] \<and> logs p2 = logs p1
      \<and> (\<forall>t. t \<noteq> s \<longrightarrow> topics p2 t = topics p1 t)
      \<and> topic_state_of p2 s =
          (if topic_state_of p1 s = Absent then PublishOnly else topic_state_of p1 s)"
  using assms
  by (auto simp: publishLog_def publish_on_def addPubSubTopic_def topic_state_of_def Let_def
      split: option.splits)

lemma pushLogToReplicators_frame:
  "topics (pushLogToReplicators w u p) = topics p"
  "published (pushLogToReplicators w u p) = published p"
  "logs (pushLogToReplicators w u p) = logs p"
  by (simp_all add: pushLogToReplicators_def Let_def split: option.splits)

text \<open>
  Claim C5, as the code has it. For an update with priority 1 and a valid document key the
  broadcast loop registers the document key and publishes the log on the topic of the
  schema ID, creating that topic publish-only when the node has none. When the
  node has no topic for the schema ID, the topic of the document key ends subscribed. When
  the node is subscribed to the topic of the schema ID, a document key without a topic gets
  a publish-only one and a document key with a topic keeps it as it is. For priority 0 the
  loop adds a line to the log and does nothing else. The calls to the backend are taken
  to succeed.
\<close>

theorem C5_broadcast_create_and_zero:
  assumes ps: "ps_present p"
    and valid: "valid_DocKey w (upd_DocKey u)"
    and dist: "upd_DocKey u \<noteq> upd_SchemaID u"
    and ok: "\<not> newTopic_fails w (upd_DocKey u)" "\<not> topicClose_fails w (upd_DocKey u)"
            "\<not> newTopic_fails w (upd_SchemaID u)"
            "\<not> marshal_fails w" "\<not> publish_fails w (upd_SchemaID u)"
  shows "(upd_Priority u = 1 \<longrightarrow>
            published (handleBroadcast w u p) =
               published p @ [(upd_SchemaID u,
                 make_request p (upd_DocKey u) (upd_Cid u) (upd_SchemaID u) (upd_Block u))]
          \<and> logs (handleBroadcast w u p) = logs p
          \<and> (topic_state_of p (upd_SchemaID u) = Absent \<longrightarrow>
                topic_state_of (handleBroadcast w u p) (upd_DocKey u) = Subscribed
              \<and> topic_state_of (handleBroadcast w u p) (upd_SchemaID u) = PublishOnly)
          \<and> (topic_state_of p (upd_SchemaID u) = Subscribed \<longrightarrow>
                topic_state_of (handleBroadcast w u p) (upd_DocKey u) =
                  (if topic_state_of p (upd_DocKey u) = Absent then PublishOnly
                   else topic_state_of p (upd_DocKey u))
              \<and> topic_state_of (handleBroadcast w u p) (upd_SchemaID u) = Subscribed))
       \<and> (upd_Priority u = 0 \<longrightarrow>
            handleBroadcast w u p =
              p\<lparr>logs := logs p @ [LogInfo ''Skipping log with invalid priority of 0'']\<rparr>)"
proof -
  let ?D = "upd_DocKey u" and ?S = "upd_SchemaID u"
  let ?sub = "\<not> hasPubSubTopic ?S p"
  let ?req = "make_request p ?D (upd_Cid u) ?S (upd_Block u)"
  have zero: "upd_Priority u = 0 \<Longrightarrow> handleBroadcast w u p =
              p\<lparr>logs := logs p @ [LogInfo ''Skipping log with invalid priority of 0'']\<rparr>"
    by (simp add: handleBroadcast_def)
  from addPubSubTopic_doc_state [OF ps ok(1) ok(2), of ?sub]
  obtain p1 where add: "addPubSubTopic w ?D ?sub p = (p1, None)"
    and p1: "ps_present p1" "published p1 = published p" "logs p1 = logs p" "host_ID p1 = host_ID p"
      "\<forall>t. t \<noteq> ?D \<longrightarrow> topics p1 t = topics p t"
      "topic_state_of p1 ?D =
          (if ?sub then Subscribed
           else if topic_state_of p ?D = Absent then PublishOnly else topic_state_of p ?D)"
    by blast
  have req: "make_request p1 ?D (upd_Cid u) ?S (upd_Block u) = ?req"
    by (simp add: make_request_def p1)
  from publishLog_schema_state [OF p1(1) ok(3) ok(4) ok(5), of ?req]
  obtain p2 where pub: "publishLog w ?S ?req p1 = (p2, None)"
    and p2: "published p2 = published p1 @ [(?S, ?req)]" "logs p2 = logs p1"
      "\<forall>t. t \<noteq> ?S \<longrightarrow> topics p2 t = topics p1 t"
      "topic_state_of p2 ?S =
          (if topic_state_of p1 ?S = Absent then PublishOnly else topic_state_of p1 ?S)"
    by blast
  have reg: "RegisterNewDocument w ?D (upd_Cid u) (upd_Block u) ?S p = (p2, None)"
    by (simp add: RegisterNewDocument_def add req pub)
  have cr: "handleDocCreateLog w u p = (pushLogToReplicators w u p2, None)"
    using valid by (simp add: handleDocCreateLog_def reg)
  have one: "upd_Priority u = 1 \<Longrightarrow> handleBroadcast w u p = pushLogToReplicators w u p2"
    by (simp add: handleBroadcast_def cr)
  have tsD: "topic_state_of (pushLogToReplicators w u p2) ?D = topic_state_of p1 ?D"
    using dist p2(3) by (simp add: topic_state_of_def pushLogToReplicators_frame)
  have tsS: "topic_state_of (pushLogToReplicators w u p2) ?S = topic_state_of p2 ?S"
    by (simp add: topic_state_of_def pushLogToReplicators_frame)
  have S1: "topic_state_of p1 ?S = topic_state_of p ?S"
    using dist p1(5) by (simp add: topic_state_of_def)
  have sub: "?sub \<longleftrightarrow> topic_state_of p ?S = Absent"
    by (simp add: hasPubSubTopic_def topic_state_of_def split: option.splits)
  show ?thesis
    using zero one tsD tsS S1 sub p1(2,3,6) p2(1,2,4)
    by (simp add: pushLogToReplicators_frame)
qed

text \<open>
  C5 on the creation of \<open>bae-doc1\<close> in the schema \<open>schema-users\<close>, on a peer
  without topics and on a peer subscribed to the schema topic.
\<close>

theorem C5_witness:
  "topic_state_of (handleBroadcast ex_world ex_update ex_peer) ''bae-doc1'' = Subscribed
   \<and> topic_state_of (handleBroadcast ex_world ex_update ex_peer) ''schema-users'' = PublishOnly
   \<and> published (handleBroadcast ex_world ex_update ex_peer) =
        [(''schema-users'', make_request ex_peer ''bae-doc1'' ''cid-X'' ''schema-users'' [1, 2, 3])]
   \<and> topic_state_of (handleBroadcast ex_world ex_update ex_peer_collection) ''bae-doc1'' = PublishOnly
   \<and> handleBroadcast ex_world (ex_update\<lparr>upd_Priority := 0\<rparr>) ex_peer =
        ex_peer\<lparr>logs := [LogInfo ''Skipping log with invalid priority of 0'']\<rparr>"
proof -
  let ?q = "ex_peer_collection"
  have h: "ps_present ex_peer" "valid_DocKey ex_world (upd_DocKey ex_update)"
    "upd_DocKey ex_update \<noteq> upd_SchemaID ex_update"
    "\<not> newTopic_fails ex_world (upd_DocKey ex_update)" "\<not> topicClose_fails ex_world (upd_DocKey ex_update)"
    "\<not> newTopic_fails ex_world (upd_SchemaID ex_update)"
    "\<not> marshal_fails ex_world" "\<not> publish_fails ex_world (upd_SchemaID ex_update)"
    by (simp_all add: ex_peer_def ex_world_def ex_update_def)
  have hq: "ps_present ?q" by (simp add: ex_peer_def ex_peer_collection_def)
  have h0: "valid_DocKey ex_world (upd_DocKey (ex_update\<lparr>upd_Priority := 0\<rparr>))"
    "upd_DocKey (ex_update\<lparr>upd_Priority := 0\<rparr>) \<noteq> upd_SchemaID (ex_update\<lparr>upd_Priority := 0\<rparr>)"
    "\<not> newTopic_fails ex_world (upd_DocKey (ex_update\<lparr>upd_Priority := 0\<rparr>))"
    "\<not> topicClose_fails ex_world (upd_DocKey (ex_update\<lparr>upd_Priority := 0\<rparr>))"
    "\<not> newTopic_fails ex_world (upd_SchemaID (ex_update\<lparr>upd_Priority := 0\<rparr>))"
    "\<not> marshal_fails ex_world" "\<not> publish_fails ex_world (upd_SchemaID (ex_update\<lparr>upd_Priority := 0\<rparr>))"
    by (simp_all add: ex_peer_def ex_world_def ex_update_def)
  have a: "upd_Priority ex_update = 1" "upd_DocKey ex_update = ''bae-doc1''"
    "upd_SchemaID ex_update = ''schema-users''" "upd_Cid ex_update = ''cid-X''"
    "upd_Block ex_update = [1, 2, 3]" "topic_state_of ex_peer ''schema-users'' = Absent"
    "topic_state_of ?q ''schema-users'' = Subscribed" "topic_state_of ?q ''bae-doc1'' = Absent"
    "published ex_peer = []" "logs ex_peer = []"
    by (simp_all add: ex_update_def ex_peer_def ex_peer_collection_def topic_state_of_def)
  show ?thesis
    using C5_broadcast_create_and_zero [OF h] C5_broadcast_create_and_zero [OF hq h(2-)]
      C5_broadcast_create_and_zero [OF h(1) h0]
    by (simp add: a)
qed

text \<open>
  Claim C5 says the log of a created document is published on the topic of the document
  key. Here a document is created on a peer with no topics: the only publication is on the
  topic of the schema ID.
\<close>

theorem C5_counterexample:
  "upd_Priority ex_update = 1
   \<and> map fst (published (handleBroadcast ex_world ex_update ex_peer)) = [''schema-users'']
   \<and> upd_DocKey ex_update \<notin> set (map fst (published (handleBroadcast ex_world ex_update ex_peer)))"
  by (simp add: ex_update_def ex_world_def ex_peer_def handleBroadcast_def handleDocCreateLog_def
      RegisterNewDocument_def addPubSubTopic_def hasPubSubTopic_def publishLog_def publish_on_def
      pushLogToReplicators_def make_request_def Let_def)

subsection \<open>Replicators\<close>

lemma addReplicators_map_of:
  "snd (addReplicators cols pid reps) = None \<Longrightarrow>
     map_of (fst (addReplicators cols pid reps)) s =
       (if s \<in> SchemaID ` set cols
        then Some (insert pid (case map_of reps s of None \<Rightarrow> {} | Some rs \<Rightarrow> rs))
        else map_of reps s)"
proof (induction cols arbitrary: reps)
  case Nil
  then show ?case by simp
next
  case (Cons col cols)
  show ?case
  proof (cases "map_of reps (SchemaID col)")
    case None
    with Cons.prems have ok: "snd (addReplicators cols pid (AList.update (SchemaID col) {pid} reps)) = None"
      by simp
    from Cons.IH [OF ok] None show ?thesis
      by (auto simp: update_conv')
  next
    case (Some rs)
    with Cons.prems have nin: "pid \<notin> rs"
      by (auto split: if_splits)
    with Cons.prems Some
    have ok: "snd (addReplicators cols pid (AList.update (SchemaID col) (insert pid rs) reps)) = None"
      by simp
    from Cons.IH [OF ok] Some nin show ?thesis
      by (auto simp: update_conv')
  qed
qed

lemma pushToReplicator_frame:
  "replicators (pushToReplicator w col pid p) = replicators p"
  "db_replicators (pushToReplicator w col pid p) = db_replicators p"
  "peerstore (pushToReplicator w col pid p) = peerstore p"
  "txn_events (pushToReplicator w col pid p) = txn_events p"
  by (simp_all add: pushToReplicator_def)

lemma pushCollections_frame:
  "replicators (fst (pushCollections w i cols pid p)) = replicators p
   \<and> db_replicators (fst (pushCollections w i cols pid p)) = db_replicators p
   \<and> peerstore (fst (pushCollections w i cols pid p)) = peerstore p
   \<and> (\<exists>evs. txn_events (fst (pushCollections w i cols pid p)) = txn_events p @ evs
            \<and> TxnCommit \<notin> set evs)"
proof (induction cols arbitrary: i p)
  case Nil
  then show ?case by simp
next
  case (Cons col cols)
  show ?case
  proof (cases "newTxn_fails w i \<or> getAllDocKeys_fails w (Name col)")
    case True
    then show ?thesis by (auto simp: Let_def)
  next
    case False
    let ?p1 = "pushToReplicator w col pid (p\<lparr>txn_events := txn_events p @ [TxnOpen]\<rparr>)"
    from False have eq: "pushCollections w i (col # cols) pid p = pushCollections w (Suc i) cols pid ?p1"
      by (simp add: Let_def)
    from Cons.IH [of "Suc i" ?p1] show ?thesis
      unfolding eq by (auto simp: pushToReplicator_frame)
  qed
qed

text \<open>
  Claim C8. A call to \<open>SetReplicator\<close> whose address carries the node's own peer ID
  returns an error and leaves the in-memory replicators, the persisted replicators and the
  peerstore as they were. When the transaction opens and the collections resolve, the error
  is the one that rejects the node itself as a target.
\<close>

theorem C8_setReplicator_self:
  assumes self: "p2p paddr = P2P (host_ID p)"
  shows "(\<exists>e. snd (snd (SetReplicator w paddr names p)) = Some e)
     \<and> replicators (fst (SetReplicator w paddr names p)) = replicators p
     \<and> db_replicators (fst (SetReplicator w paddr names p)) = db_replicators p
     \<and> peerstore (fst (SetReplicator w paddr names p)) = peerstore p
     \<and> (\<not> newTxn_fails w 0 \<and> (\<exists>cols. verifyCollections w names = Inr cols) \<longrightarrow>
          snd (snd (SetReplicator w paddr names p)) = Some ErrSelfTarget)"
  using self
  by (auto simp: SetReplicator_def setReplicator_def split: sum.splits)

text \<open>
  Claim C10. A call to \<open>DeleteReplicator\<close> for the node's own peer ID returns an error
  before anything is removed: the in-memory replicators, the peerstore and the persisted
  replicators are as they were. When the transaction opens, the error is the one that
  rejects the node itself as a target.
\<close>

theorem C10_deleteReplicator_self:
  assumes self: "pid = host_ID p"
  shows "(\<exists>e. snd (DeleteReplicator w pid names p) = Some e)
     \<and> replicators (fst (DeleteReplicator w pid names p)) = replicators p
     \<and> db_replicators (fst (DeleteReplicator w pid names p)) = db_replicators p
     \<and> peerstore (fst (DeleteReplicator w pid names p)) = peerstore p
     \<and> (\<not> newTxn_fails w 0 \<longrightarrow> snd (DeleteReplicator w pid names p) = Some ErrSelfTarget)"
  using self
  by (auto simp: DeleteReplicator_def deleteReplicator_def)

text \<open>
  C8 on node1 asked to replicate to its own address.
\<close>

theorem C8_witness:
  "snd (snd (SetReplicator ex_world ex_self_paddr [''users'']
               (ex_peer\<lparr>replicators := [(''schema-users'', {''node3''})]\<rparr>))) = Some ErrSelfTarget
   \<and> replicators (fst (SetReplicator ex_world ex_self_paddr [''users'']
               (ex_peer\<lparr>replicators := [(''schema-users'', {''node3''})]\<rparr>)))
       = [(''schema-users'', {''node3''})]
   \<and> db_replicators (fst (SetReplicator ex_world ex_self_paddr [''users'']
               (ex_peer\<lparr>replicators := [(''schema-users'', {''node3''})]\<rparr>))) = []
   \<and> peerstore (fst (SetReplicator ex_world ex_self_paddr [''users'']
               (ex_peer\<lparr>replicators := [(''schema-users'', {''node3''})]\<rparr>))) = Map.empty"
proof -
  let ?p = "ex_peer\<lparr>replicators := [(''schema-users'', {''node3''})]\<rparr>"
  have self: "p2p ex_self_paddr = P2P (host_ID ?p)"
    by (simp add: ex_self_paddr_def ex_peer_def)
  have pre: "\<not> newTxn_fails ex_world 0"
    "\<exists>cols. verifyCollections ex_world [''users''] = Inr cols"
    by (simp_all add: ex_world_def verifyCollections_def GetCollectionByName_def)
  have st: "replicators ?p = [(''schema-users'', {''node3''})]" "db_replicators ?p = []"
    "peerstore ?p = Map.empty"
    by (simp_all add: ex_peer_def)
  show ?thesis
    using C8_setReplicator_self [OF self, of ex_world "[''users'']"] pre st by simp
qed

text \<open>
  C10 on node1 asked to delete itself.
\<close>

theorem C10_witness:
  "DeleteReplicator ex_world ''node1'' [''users'']
       (ex_peer\<lparr>replicators := [(''schema-users'', {''node3''})]\<rparr>)
     = (ex_peer\<lparr>replicators := [(''schema-users'', {''node3''})],
                txn_events := [TxnOpen, TxnDiscard]\<rparr>, Some ErrSelfTarget)
   \<and> snd (DeleteReplicator ex_world ''node1'' [''users'']
            (ex_peer\<lparr>replicators := [(''schema-users'', {''node3''})]\<rparr>)) = Some ErrSelfTarget"
proof -
  let ?p = "ex_peer\<lparr>replicators := [(''schema-users'', {''node3''})]\<rparr>"
  have self: "''node1'' = host_ID ?p"
    by (simp add: ex_peer_def)
  have pre: "\<not> newTxn_fails ex_world 0"
    by (simp add: ex_world_def)
  have ev: "DeleteReplicator ex_world ''node1'' [''users''] ?p
     = (ex_peer\<lparr>replicators := [(''schema-users'', {''node3''})],
                txn_events := [TxnOpen, TxnDiscard]\<rparr>, Some ErrSelfTarget)"
    by (simp add: DeleteReplicator_def deleteReplicator_def ex_world_def ex_peer_def)
  show ?thesis
    using C10_deleteReplicator_self [OF self, of ex_world "[''users'']"] pre ev by simp
qed

text \<open>
  Claim C3, as the code has it. A call to \<open>SetReplicator\<close> that has passed its checks and
  then fails, at persisting the replicator or at a later step other than the commit, ends
  with its transaction discarded and never committed. The additions to the in-memory
  replicator map are kept: every schema of the collections lists the peer, next to the
  peers it listed before, and no other schema has changed. When it is the persisting that
  fails, the persisted replicators are unchanged.
\<close>

theorem C3_setReplicator_failure_keeps_additions:
  assumes opened: "\<not> newTxn_fails w 0"
    and cols: "verifyCollections w names = Inr cols"
    and pid: "p2p paddr = P2P pid"
    and notself: "pid \<noteq> host_ID p"
    and info: "addrInfo paddr = Inr info"
    and nodup: "snd (addReplicators cols pid (replicators p)) = None"
    and fails: "snd (snd (SetReplicator w paddr names p)) = Some e"
    and nocommit: "\<not> txnCommit_fails w"
  shows "(\<exists>evs. txn_events (fst (SetReplicator w paddr names p)) = txn_events p @ evs @ [TxnDiscard]
             \<and> TxnCommit \<notin> set evs)
     \<and> map_of (replicators (fst (SetReplicator w paddr names p))) s =
          (if s \<in> SchemaID ` set cols
           then Some (insert pid (case map_of (replicators p) s of None \<Rightarrow> {} | Some rs \<Rightarrow> rs))
           else map_of (replicators p) s)
     \<and> (db_SetReplicator_fails w \<longrightarrow>
           e = Wrap ''failed to persist replicator'' ErrPersist
           \<and> db_replicators (fst (SetReplicator w paddr names p)) = db_replicators p)"
proof -
  define reps where "reps = fst (addReplicators cols pid (replicators p))"
  have ar: "addReplicators cols pid (replicators p) = (reps, None)"
    using nodup by (simp add: reps_def prod_eq_iff)
  have mo: "map_of reps s =
          (if s \<in> SchemaID ` set cols
           then Some (insert pid (case map_of (replicators p) s of None \<Rightarrow> {} | Some rs \<Rightarrow> rs))
           else map_of (replicators p) s)"
    unfolding reps_def by (rule addReplicators_map_of [OF nodup])
  define p0 where "p0 = p\<lparr>txn_events := txn_events p @ [TxnOpen]\<rparr>"
  define p2 where "p2 = p0\<lparr>peerstore := (peerstore p0)(ID info \<mapsto>
                (case peerstore p0 (ID info) of None \<Rightarrow> [] | Some as \<Rightarrow> as) @ Addrs info),
              replicators := reps\<rparr>"
  define p3 where "p3 = p2\<lparr>db_replicators :=
         db_SetReplicator \<lparr>Info = info, Schemas = map SchemaID cols\<rparr> (db_replicators p2)\<rparr>"
  have sr: "setReplicator w paddr names p0 =
      (if db_SetReplicator_fails w then (p2, pid, Some (Wrap ''failed to persist replicator'' ErrPersist))
       else (fst (pushCollections w 1 cols pid p3), pid, snd (pushCollections w 1 cols pid p3)))"
    using cols pid notself info ar
    by (simp add: setReplicator_def p0_def p2_def p3_def Let_def split: prod.splits)
  show ?thesis
  proof (cases "db_SetReplicator_fails w")
    case True
    then have S: "SetReplicator w paddr names p =
        (p2\<lparr>txn_events := txn_events p2 @ [TxnDiscard]\<rparr>, [], Some (Wrap ''failed to persist replicator'' ErrPersist))"
      using opened by (simp add: SetReplicator_def sr [unfolded p0_def])
    have "txn_events p2 = txn_events p @ [TxnOpen]" "replicators p2 = reps"
      "db_replicators p2 = db_replicators p"
      by (simp_all add: p2_def p0_def)
    with S True fails mo show ?thesis by auto
  next
    case False
    obtain p4 err where pc: "pushCollections w 1 cols pid p3 = (p4, err)"
      by (cases "pushCollections w 1 cols pid p3")
    from pushCollections_frame [of w 1 cols pid p3] pc
    obtain evs where fr: "replicators p4 = replicators p3"
      "txn_events p4 = txn_events p3 @ evs" "TxnCommit \<notin> set evs"
      by auto
    have base: "txn_events p3 = txn_events p @ [TxnOpen]" "replicators p3 = reps"
      by (simp_all add: p3_def p2_def p0_def)
    have "err \<noteq> None"
    proof
      assume "err = None"
      with False opened nocommit pc have "snd (snd (SetReplicator w paddr names p)) = None"
        by (simp add: SetReplicator_def sr [unfolded p0_def])
      with fails show False by simp
    qed
    then obtain e' where e': "err = Some e'" by auto
    have S: "SetReplicator w paddr names p = (p4\<lparr>txn_events := txn_events p4 @ [TxnDiscard]\<rparr>, [], Some e')"
      using False opened pc e' by (simp add: SetReplicator_def sr [unfolded p0_def])
    have "txn_events (fst (SetReplicator w paddr names p)) = txn_events p @ (TxnOpen # evs) @ [TxnDiscard]"
      by (simp add: S fr base)
    moreover have "TxnCommit \<notin> set (TxnOpen # evs)" using fr(3) by simp
    ultimately have ev: "\<exists>evs. txn_events (fst (SetReplicator w paddr names p)) = txn_events p @ evs @ [TxnDiscard]
             \<and> TxnCommit \<notin> set evs"
      by blast
    show ?thesis
      using ev False mo by (simp add: S fr base)
  qed
qed

text \<open>
  Claim C3 says the in-memory map is rolled back when persisting fails. Here persisting
  fails on a peer with no replicators: the call returns the error, discards the
  transaction, and the map lists the new peer.
\<close>

theorem C3_counterexample:
  "snd (snd (SetReplicator (ex_world\<lparr>db_SetReplicator_fails := True\<rparr>) ex_paddr [''users''] ex_peer))
      = Some (Wrap ''failed to persist replicator'' ErrPersist)
   \<and> replicators ex_peer = []
   \<and> replicators (fst (SetReplicator (ex_world\<lparr>db_SetReplicator_fails := True\<rparr>) ex_paddr [''users''] ex_peer))
      = [(''schema-users'', {''node2''})]
   \<and> txn_events (fst (SetReplicator (ex_world\<lparr>db_SetReplicator_fails := True\<rparr>) ex_paddr [''users''] ex_peer))
      = [TxnOpen, TxnDiscard]"
  by (simp add: SetReplicator_def setReplicator_def ex_world_def ex_peer_def ex_paddr_def
      verifyCollections_def GetCollectionByName_def Let_def)

text \<open>
  C3 on the same failing call.
\<close>

theorem C3_witness:
  "map_of (replicators (fst (SetReplicator (ex_world\<lparr>db_SetReplicator_fails := True\<rparr>)
              ex_paddr [''users''] ex_peer))) ''schema-users'' = Some {''node2''}
   \<and> db_replicators (fst (SetReplicator (ex_world\<lparr>db_SetReplicator_fails := True\<rparr>)
              ex_paddr [''users''] ex_peer)) = []
   \<and> (\<exists>evs. txn_events (fst (SetReplicator (ex_world\<lparr>db_SetReplicator_fails := True\<rparr>)
              ex_paddr [''users''] ex_peer)) = evs @ [TxnDiscard] \<and> TxnCommit \<notin> set evs)"
proof -
  let ?w = "ex_world\<lparr>db_SetReplicator_fails := True\<rparr>"
  let ?cols = "[\<lparr>Name = ''users'', SchemaID = ''schema-users'', DocKeys = [''bae-doc1'']\<rparr>]"
  have h: "\<not> newTxn_fails ?w 0"
    "verifyCollections ?w [''users''] = Inr ?cols"
    "p2p ex_paddr = P2P ''node2''"
    "''node2'' \<noteq> host_ID ex_peer"
    "addrInfo ex_paddr = Inr \<lparr>ID = ''node2'', Addrs = [''/ip4/10.0.0.2/tcp/9171'']\<rparr>"
    "snd (addReplicators ?cols ''node2'' (replicators ex_peer)) = None"
    by (simp_all add: ex_world_def ex_peer_def ex_paddr_def verifyCollections_def
        GetCollectionByName_def)
  have f: "snd (snd (SetReplicator ?w ex_paddr [''users''] ex_peer))
      = Some (Wrap ''failed to persist replicator'' ErrPersist)"
    by (simp add: SetReplicator_def setReplicator_def ex_world_def ex_peer_def ex_paddr_def
      verifyCollections_def GetCollectionByName_def Let_def)
  have nc: "\<not> txnCommit_fails ?w" by (simp add: ex_world_def)
  have st: "replicators ex_peer = []" "db_replicators ex_peer = []" "txn_events ex_peer = []"
    "db_SetReplicator_fails ?w"
    by (simp_all add: ex_peer_def)
  show ?thesis
    using C3_setReplicator_failure_keeps_additions [OF h f nc, of "''schema-users''"] st
    by simp
qed

subsection \<open>The push handler\<close>

lemma pushLog_deferred_frame:
  "blocks (pushLog_deferred w pid req p) = blocks p"
  "merged (pushLog_deferred w pid req p) = merged p"
  "topics (pushLog_deferred w pid req p) = topics p"
  "txn_events (pushLog_deferred w pid req p) = txn_events p"
  "queuedChildren (pushLog_deferred w pid req p) = queuedChildren p"
  "replicators (pushLog_deferred w pid req p) = replicators p"
  "pushLogEmitter (pushLog_deferred w pid req p) = pushLogEmitter p"
  "docQueue (pushLog_deferred w pid req p) = docQueue p - {req_DocKey req}"
  "pushLogEmitter p \<and> \<not> emit_fails w \<Longrightarrow>
     received_events (pushLog_deferred w pid req p) =
       received_events p @ [(pid, decode_Creator w (req_Creator req))]"
  by (simp_all add: pushLog_deferred_def Let_def)






lemmas pl_eval = PushLog_def pushLog_deferred_def processLog_def GetCollectionBySchemaID_def
  addPubSubTopic_def hasPubSubTopic_def Let_def eval_nat_numeral



text \<open>
  Claim C4, as the code has it. A push whose block does not decode is aborted: the handler
  returns an error that wraps the cause, its transaction is discarded and not committed,
  and the blocks, the merges and the topics are as before.
\<close>

theorem C4_pushLog_decode_failure_aborts:
  assumes free: "req_DocKey req \<notin> docQueue p" "req_Cid req \<notin> queuedChildren p"
    and has: "\<not> blockstore_Has_fails w"
    and new: "req_Cid req \<notin> blocks p"
    and tries: "0 < MaxTxnRetries w"
    and txn: "\<not> newTxn_fails w 0"
    and col: "GetCollectionBySchemaID w (req_SchemaID req) = Inr col"
    and dec: "decodeBlockBuffer w (req_Block req) (req_Cid req) = Inl e"
  shows "\<exists>p'. PushLog w (Inr pid) req p =
              Some (p', Some (Wrap ''failed to decode block to ipld.Node'' e))
      \<and> blocks p' = blocks p \<and> merged p' = merged p \<and> topics p' = topics p
      \<and> txn_events p' = txn_events p @ [TxnOpen, TxnDiscard]"
proof -
  obtain n where n: "MaxTxnRetries w = Suc n"
    using tries by (cases "MaxTxnRetries w") auto
  show ?thesis
    using free has new txn col dec
    by (simp add: PushLog_def n Let_def pushLog_deferred_frame)
qed

text \<open>
  Claim C4 says that a failure of the block store or of the merge aborts the request with an
  error. Here \<open>processLog\<close> fails, in the merge and then in the store: the handler logs
  the error, commits the transaction and returns success.
\<close>

theorem C4_counterexample:
  "map_option snd (PushLog (ex_world\<lparr>processLog_outcome := (\<lambda>_. MergeFails)\<rparr>)
        (Inr ''node2'') ex_request ex_peer) = Some None
   \<and> map_option (txn_events \<circ> fst) (PushLog (ex_world\<lparr>processLog_outcome := (\<lambda>_. MergeFails)\<rparr>)
        (Inr ''node2'') ex_request ex_peer) = Some [TxnOpen, TxnCommit]
   \<and> map_option (merged \<circ> fst) (PushLog (ex_world\<lparr>processLog_outcome := (\<lambda>_. MergeFails)\<rparr>)
        (Inr ''node2'') ex_request ex_peer) = Some []
   \<and> map_option (logs \<circ> fst) (PushLog (ex_world\<lparr>processLog_outcome := (\<lambda>_. MergeFails)\<rparr>)
        (Inr ''node2'') ex_request ex_peer) = Some [LogError ''Failed to process PushLog node'' ErrMerge]
   \<and> map_option snd (PushLog (ex_world\<lparr>processLog_outcome := (\<lambda>_. StoreFails)\<rparr>)
        (Inr ''node2'') ex_request ex_peer) = Some None
   \<and> map_option (txn_events \<circ> fst) (PushLog (ex_world\<lparr>processLog_outcome := (\<lambda>_. StoreFails)\<rparr>)
        (Inr ''node2'') ex_request ex_peer) = Some [TxnOpen, TxnCommit]"
  by (simp add: pl_eval ex_world_def ex_peer_def ex_request_def)

text \<open>
  C4 on a request whose block does not decode.
\<close>

theorem C4_witness:
  "\<exists>p'. PushLog (ex_world\<lparr>decodeBlockBuffer := (\<lambda>b c. Inl ErrBlockDecode)\<rparr>)
           (Inr ''node2'') ex_request ex_peer =
           Some (p', Some (Wrap ''failed to decode block to ipld.Node'' ErrBlockDecode))
      \<and> blocks p' = {} \<and> merged p' = [] \<and> topics p' = Map.empty
      \<and> txn_events p' = [TxnOpen, TxnDiscard]"
proof -
  let ?w = "ex_world\<lparr>decodeBlockBuffer := (\<lambda>b c. Inl ErrBlockDecode)\<rparr>"
  have h: "req_DocKey ex_request \<notin> docQueue ex_peer" "req_Cid ex_request \<notin> queuedChildren ex_peer"
    "\<not> blockstore_Has_fails ?w" "req_Cid ex_request \<notin> blocks ex_peer" "0 < MaxTxnRetries ?w"
    "\<not> newTxn_fails ?w 0"
    "GetCollectionBySchemaID ?w (req_SchemaID ex_request) =
               Inr \<lparr>Name = ''users'', SchemaID = ''schema-users'', DocKeys = [''bae-doc1'']\<rparr>"
    "decodeBlockBuffer ?w (req_Block ex_request) (req_Cid ex_request) = Inl ErrBlockDecode"
    by (simp_all add: ex_peer_def ex_world_def ex_request_def GetCollectionBySchemaID_def)
  have e: "blocks ex_peer = {}" "merged ex_peer = []" "topics ex_peer = Map.empty"
    "txn_events ex_peer = []"
    by (simp_all add: ex_peer_def)
  show ?thesis
    using C4_pushLog_decode_failure_aborts [OF h, where pid = "''node2''"] e by simp
qed

end
